theory Spec2Isabelle
  imports Main "HOL-Library.Word"
begin

unbundle bit_operations_syntax

section \<open>Machine integers of the Go source\<close>

type_synonym uint8 = "8 word"
type_synonym int16 = "16 word"
type_synonym int32 = "32 word"
type_synonym uint64 = "64 word"

text \<open>Go's \<^verbatim>\<open>int\<close> on the 64-bit targets the fuzzer runs on.\<close>

type_synonym go_int = "64 word"

section \<open>Registers\<close>

text \<open>
  Modelled from the spec: the \<^verbatim>\<open>Register\<close> type, its methods
  \<^verbatim>\<open>RegisterNumber\<close> and \<^verbatim>\<open>ToString\<close> and the package-level registers
  \<^verbatim>\<open>RegR0\<close> .. \<^verbatim>\<open>RegR10\<close> and \<^verbatim>\<open>PseudoMapFD\<close> are declared in a file of
  package ebpf that is not part of the sources at hand. The spec describes a fixed
  enumeration of machine registers r0 .. r10, each with a numeric identity 0 .. 10 and a
  display name "r0" .. "r10", plus a pseudo sentinel that only tags the resource-handle
  load. The comment on \<^verbatim>\<open>MemoryInstruction.SrcReg\<close> gives the sentinel's number: a
  source register of 0x1 makes the immediate a map fd.
\<close>

datatype Register =
    RegR0 | RegR1 | RegR2 | RegR3 | RegR4 | RegR5
  | RegR6 | RegR7 | RegR8 | RegR9 | RegR10
  | PseudoMapFD

text \<open>Modelled from the spec: the numeric identity of a register.\<close>

fun RegisterNumber :: "Register \<Rightarrow> uint8" where
  "RegisterNumber RegR0 = 0"
| "RegisterNumber RegR1 = 1"
| "RegisterNumber RegR2 = 2"
| "RegisterNumber RegR3 = 3"
| "RegisterNumber RegR4 = 4"
| "RegisterNumber RegR5 = 5"
| "RegisterNumber RegR6 = 6"
| "RegisterNumber RegR7 = 7"
| "RegisterNumber RegR8 = 8"
| "RegisterNumber RegR9 = 9"
| "RegisterNumber RegR10 = 10"
| "RegisterNumber PseudoMapFD = 1"

text \<open>
  Modelled from the spec: the canonical text form of a register. The spec names
  "r0" .. "r10" and leaves the sentinel's text open; no statement below depends on it.
\<close>

fun ToString :: "Register \<Rightarrow> string" where
  "ToString RegR0 = ''r0''"
| "ToString RegR1 = ''r1''"
| "ToString RegR2 = ''r2''"
| "ToString RegR3 = ''r3''"
| "ToString RegR4 = ''r4''"
| "ToString RegR5 = ''r5''"
| "ToString RegR6 = ''r6''"
| "ToString RegR7 = ''r7''"
| "ToString RegR8 = ''r8''"
| "ToString RegR9 = ''r9''"
| "ToString RegR10 = ''r10''"
| "ToString PseudoMapFD = ''pseudo_map_fd''"

text \<open>
  A \<^verbatim>\<open>*Register\<close> is a pointer: \<open>None\<close> is Go's nil, \<open>Some r\<close> points at the
  register \<open>r\<close>.
\<close>

type_synonym Register_ptr = "Register option"

section \<open>Opcode constants\<close>

text \<open>
  Modelled from the spec: the instruction-class, size and addressing-mode tags are
  constants of package ebpf declared outside the sources at hand. The spec fixes them to
  the target machine's published instruction format, whose values these are.
\<close>

definition InsClassLd :: uint8 where "InsClassLd = 0x00"
definition InsClassLdx :: uint8 where "InsClassLdx = 0x01"
definition InsClassSt :: uint8 where "InsClassSt = 0x02"
definition InsClassStx :: uint8 where "InsClassStx = 0x03"

definition StLdSizeW :: uint8 where "StLdSizeW = 0x00"
definition StLdSizeH :: uint8 where "StLdSizeH = 0x08"
definition StLdSizeB :: uint8 where "StLdSizeB = 0x10"
definition StLdSizeDW :: uint8 where "StLdSizeDW = 0x18"

definition StLdModeIMM :: uint8 where "StLdModeIMM = 0x00"
definition StLdModeMEM :: uint8 where "StLdModeMEM = 0x60"
definition StLdModeATOMIC :: uint8 where "StLdModeATOMIC = 0xc0"

text \<open>
  Modelled from the spec: the operation selectors of the atomic helpers
  (\<^verbatim>\<open>AluAdd\<close>, \<^verbatim>\<open>AluOr\<close>, \<^verbatim>\<open>AluAnd\<close>, \<^verbatim>\<open>AluXor\<close>), with the values of the
  published instruction format.
\<close>

definition AluAdd :: uint8 where "AluAdd = 0x00"
definition AluOr :: uint8 where "AluOr = 0x40"
definition AluAnd :: uint8 where "AluAnd = 0x50"
definition AluXor :: uint8 where "AluXor = 0xa0"

lemmas opcode_defs =
  InsClassLd_def InsClassLdx_def InsClassSt_def InsClassStx_def
  StLdSizeW_def StLdSizeH_def StLdSizeB_def StLdSizeDW_def
  StLdModeIMM_def StLdModeMEM_def StLdModeATOMIC_def

section \<open>Memory instructions\<close>

text \<open>
  \<^verbatim>\<open>BaseInstruction\<close> is embedded in \<^verbatim>\<open>MemoryInstruction\<close>; the two fields the
  source reads and writes are its instruction class and its destination register.
\<close>

record BaseInstruction =
  InstructionClass :: uint8
  DstReg :: Register_ptr

record MemoryInstruction = BaseInstruction +
  Size :: uint8
  Mode :: uint8
  SrcReg :: Register_ptr
  Imm :: int32
  Offset :: int16

text \<open>
  Calling a register method through a nil pointer panics; every other outcome of the
  functions below is a value.
\<close>

datatype panic = NilPointerDereference

section \<open>The binary encoding\<close>

text \<open>
  Modelled from the spec: \<^verbatim>\<open>encodeImmediateStOrLdInstruction\<close> is not part of the
  sources at hand. The spec's binary encoding format packs one instruction into one
  64-bit word with the published field layout: the opcode (class, size and mode tags
  combined) in bits 0-7, the destination register in bits 8-11, the source register in
  bits 12-15, the 16-bit offset in bits 16-31 and the 32-bit immediate in bits 32-63.
  Each field is cut to its width, so no field spills into its neighbour.
\<close>

definition encodeImmediateStOrLdInstruction ::
  "uint8 \<Rightarrow> uint8 \<Rightarrow> uint8 \<Rightarrow> uint8 \<Rightarrow> uint8 \<Rightarrow> int32 \<Rightarrow> int16 \<Rightarrow> uint64" where
  "encodeImmediateStOrLdInstruction insClass sz mode dst src imm offset =
     (let opcode = (mode AND 0xE0) OR (sz AND 0x18) OR (insClass AND 0x07)
      in ucast opcode
         OR push_bit 8 (ucast (dst AND 0x0F))
         OR push_bit 12 (ucast (src AND 0x0F))
         OR push_bit 16 (ucast offset)
         OR push_bit 32 (ucast imm))"

text \<open>
  \<^verbatim>\<open>GenerateBytecode\<close>: one encoded word, followed by a zero word exactly when the
  class is load and the mode is immediate. The two \<^verbatim>\<open>RegisterNumber\<close> calls come
  first and panic on a nil register.
\<close>

definition GenerateBytecode :: "MemoryInstruction \<Rightarrow> panic + uint64 list" where
  "GenerateBytecode c =
     (case DstReg c of
        None \<Rightarrow> Inl NilPointerDereference
      | Some d \<Rightarrow>
          (case SrcReg c of
             None \<Rightarrow> Inl NilPointerDereference
           | Some s \<Rightarrow>
               (let bytecode =
                      [encodeImmediateStOrLdInstruction (InstructionClass c) (Size c) (Mode c)
                         (RegisterNumber d) (RegisterNumber s) (Imm c) (Offset c)]
                in Inr (if InstructionClass c = InsClassLd \<and> Mode c = StLdModeIMM
                        then bytecode @ [0]
                        else bytecode))))"

section \<open>Text formatting\<close>

text \<open>
  \<^verbatim>\<open>fmt.Sprintf\<close> is Go's standard library. Three of its behaviours occur in
  \<^verbatim>\<open>GeneratePoc\<close>: \<^verbatim>\<open>%s\<close> of a string prints the string, \<^verbatim>\<open>%d\<close> of an integer
  prints it in decimal, and \<^verbatim>\<open>%d\<close> of a string is a verb of the wrong type, which
  prints \<^verbatim>\<open>%!d(string=\<close>, the string and \<^verbatim>\<open>)\<close>.
\<close>

definition digit_char :: "nat \<Rightarrow> char" where
  "digit_char n = ''0123456789'' ! n"

function nat_to_decimal :: "nat \<Rightarrow> string" where
  "nat_to_decimal n =
     (if n < 10 then [digit_char n]
      else nat_to_decimal (n div 10) @ [digit_char (n mod 10)])"
  by pat_completeness auto
termination
  by (relation "measure id") auto

declare nat_to_decimal.simps [simp del]

definition fmt_s :: "string \<Rightarrow> string" where
  "fmt_s str = str"

definition fmt_d :: "int \<Rightarrow> string" where
  "fmt_d i = (if i < 0 then CHR ''-'' # nat_to_decimal (nat (- i)) else nat_to_decimal (nat i))"

definition fmt_d_of_string :: "string \<Rightarrow> string" where
  "fmt_d_of_string str = ''%!d(string='' @ str @ '')''"

section \<open>The reproduction macro\<close>

text \<open>
  \<^verbatim>\<open>GeneratePoc\<close>: the class name and the size name are chosen first; then one of
  three formats. The load-immediate format prints the destination register with
  \<^verbatim>\<open>%s\<close>; the other two pass the results of \<^verbatim>\<open>ToString\<close> to \<^verbatim>\<open>%d\<close>. A
  \<^verbatim>\<open>ToString\<close> call through a nil register panics.
\<close>

definition GeneratePoc :: "MemoryInstruction \<Rightarrow> panic + string list" where
  "GeneratePoc c =
     (let insClass =
            (if InstructionClass c = InsClassStx then ''BPF_STX''
             else if InstructionClass c = InsClassSt then ''BPF_ST''
             else ''BPF_LDX'');
          sz =
            (if Size c = StLdSizeW then ''BPF_W''
             else if Size c = StLdSizeH then ''BPF_H''
             else if Size c = StLdSizeB then ''BPF_B''
             else if Size c = StLdSizeDW then ''BPF_DW''
             else ''unknown'')
      in if InstructionClass c = InsClassLd \<and> Mode c = StLdModeIMM then
           (case DstReg c of
              None \<Rightarrow> Inl NilPointerDereference
            | Some d \<Rightarrow>
                Inr [''BPF_LD_MAP_FD(/*dst=*/'' @ fmt_s (ToString d) @ '', map_fd)''])
         else if InstructionClass c = InsClassStx \<or> InstructionClass c = InsClassLdx then
           (case DstReg c of
              None \<Rightarrow> Inl NilPointerDereference
            | Some d \<Rightarrow>
                (case SrcReg c of
                   None \<Rightarrow> Inl NilPointerDereference
                 | Some s \<Rightarrow>
                     Inr [''BPF_MEM_OPERATION('' @ fmt_s insClass @ '', '' @ fmt_s sz
                          @ '', /*dst=*/'' @ fmt_d_of_string (ToString d)
                          @ '', /*src=*/'' @ fmt_d_of_string (ToString s)
                          @ '', /*offset=*/'' @ fmt_d (sint (Offset c)) @ '')'']))
         else
           (case DstReg c of
              None \<Rightarrow> Inl NilPointerDereference
            | Some d \<Rightarrow>
                Inr [''BPF_MEM_IMM_OPERATION('' @ fmt_s insClass @ '', '' @ fmt_s sz
                     @ '', /*dst=*/'' @ fmt_d_of_string (ToString d)
                     @ '', /*src=*/'' @ fmt_d (sint (Imm c))
                     @ '', /*offset=*/'' @ fmt_d (sint (Offset c)) @ '')'']))"

section \<open>The construction factories\<close>

text \<open>
  The \<^verbatim>\<open>src interface{}\<close> argument of the store factories, as far as
  \<^verbatim>\<open>newStoreOperation\<close> tells its values apart: an integer of a supported type, with
  its value as the Go \<^verbatim>\<open>int\<close> that \<^verbatim>\<open>isIntType\<close> reports; a \<^verbatim>\<open>*Register\<close>, which
  may be a nil pointer; or a value of any other shape (a string, a float, the nil
  interface).
\<close>

datatype operand =
    IntOperand go_int
  | RegOperand Register_ptr
  | OtherOperand

text \<open>
  Modelled from the spec: \<^verbatim>\<open>isIntType\<close> is a helper of package ebpf outside the
  sources at hand. It tells whether the operand is an integer of a supported width and,
  if so, returns its value.
\<close>

definition isIntType :: "operand \<Rightarrow> bool \<times> go_int" where
  "isIntType src = (case src of IntOperand n \<Rightarrow> (True, n) | _ \<Rightarrow> (False, 0))"

text \<open>
  The factories return the \<^verbatim>\<open>Instruction\<close> interface. Only \<^verbatim>\<open>newStoreOperation\<close>
  can return nil (\<open>None\<close>).
\<close>

definition newStoreOperation ::
  "uint8 \<Rightarrow> Register_ptr \<Rightarrow> operand \<Rightarrow> int16 \<Rightarrow> MemoryInstruction option" where
  "newStoreOperation sz dstReg src offset =
     (let (isInt, srcInt) = isIntType src;
          chosen =
            (if isInt then Some (Some RegR0, (ucast srcInt :: int32), InsClassSt)
             else (case src of
                     RegOperand srcR \<Rightarrow> Some (srcR, 0, InsClassStx)
                   | _ \<Rightarrow> None))
      in case chosen of
           None \<Rightarrow> None
         | Some (srcReg, imm, insClass) \<Rightarrow>
             Some \<lparr>InstructionClass = insClass, DstReg = dstReg, Size = sz,
                   Mode = StLdModeMEM, SrcReg = srcReg, Imm = imm, Offset = offset\<rparr>)"

definition StDW :: "Register_ptr \<Rightarrow> operand \<Rightarrow> int16 \<Rightarrow> MemoryInstruction option" where
  "StDW dst src offset = newStoreOperation StLdSizeDW dst src offset"

definition StW :: "Register_ptr \<Rightarrow> operand \<Rightarrow> int16 \<Rightarrow> MemoryInstruction option" where
  "StW dst src offset = newStoreOperation StLdSizeW dst src offset"

definition StH :: "Register_ptr \<Rightarrow> operand \<Rightarrow> int16 \<Rightarrow> MemoryInstruction option" where
  "StH dst src offset = newStoreOperation StLdSizeH dst src offset"

definition StB :: "Register_ptr \<Rightarrow> operand \<Rightarrow> int16 \<Rightarrow> MemoryInstruction option" where
  "StB dst src offset = newStoreOperation StLdSizeB dst src offset"

text \<open>The load factory leaves \<^verbatim>\<open>Imm\<close> at its zero value.\<close>

definition newLoadToRegisterOperation ::
  "uint8 \<Rightarrow> Register_ptr \<Rightarrow> Register_ptr \<Rightarrow> int16 \<Rightarrow> MemoryInstruction" where
  "newLoadToRegisterOperation sz dstReg src offset =
     \<lparr>InstructionClass = InsClassLdx, DstReg = dstReg, Size = sz,
      Mode = StLdModeMEM, SrcReg = src, Imm = 0, Offset = offset\<rparr>"

definition LdDW :: "Register_ptr \<Rightarrow> Register_ptr \<Rightarrow> int16 \<Rightarrow> MemoryInstruction" where
  "LdDW dst src offset = newLoadToRegisterOperation StLdSizeDW dst src offset"

definition LdW :: "Register_ptr \<Rightarrow> Register_ptr \<Rightarrow> int16 \<Rightarrow> MemoryInstruction" where
  "LdW dst src offset = newLoadToRegisterOperation StLdSizeW dst src offset"

definition LdH :: "Register_ptr \<Rightarrow> Register_ptr \<Rightarrow> int16 \<Rightarrow> MemoryInstruction" where
  "LdH dst src offset = newLoadToRegisterOperation StLdSizeH dst src offset"

definition LdB :: "Register_ptr \<Rightarrow> Register_ptr \<Rightarrow> int16 \<Rightarrow> MemoryInstruction" where
  "LdB dst src offset = newLoadToRegisterOperation StLdSizeB dst src offset"

text \<open>
  The resource-handle loader: \<^verbatim>\<open>int32(fd)\<close> keeps the low 32 bits of the handle, and
  \<^verbatim>\<open>Offset\<close> stays at its zero value.
\<close>

definition LdMapByFd :: "Register_ptr \<Rightarrow> go_int \<Rightarrow> MemoryInstruction" where
  "LdMapByFd dst fd =
     \<lparr>InstructionClass = InsClassLd, DstReg = dst, Size = StLdSizeDW,
      Mode = StLdModeIMM, SrcReg = Some PseudoMapFD, Imm = ucast fd, Offset = 0\<rparr>"

definition newAtomicInstruction ::
  "Register_ptr \<Rightarrow> Register_ptr \<Rightarrow> uint8 \<Rightarrow> uint8 \<Rightarrow> int16 \<Rightarrow> int32 \<Rightarrow> MemoryInstruction" where
  "newAtomicInstruction dst src sz cls offset operation =
     \<lparr>InstructionClass = cls, DstReg = dst, Size = sz,
      Mode = StLdModeATOMIC, SrcReg = src, Imm = operation, Offset = offset\<rparr>"

definition MemAdd64 :: "Register_ptr \<Rightarrow> Register_ptr \<Rightarrow> int16 \<Rightarrow> MemoryInstruction" where
  "MemAdd64 dst src offset =
     newAtomicInstruction dst src StLdSizeDW InsClassStx offset (ucast AluAdd)"

definition MemAdd :: "Register_ptr \<Rightarrow> Register_ptr \<Rightarrow> int16 \<Rightarrow> MemoryInstruction" where
  "MemAdd dst src offset =
     newAtomicInstruction dst src StLdSizeW InsClassStx offset (ucast AluAdd)"

definition MemOr64 :: "Register_ptr \<Rightarrow> Register_ptr \<Rightarrow> int16 \<Rightarrow> MemoryInstruction" where
  "MemOr64 dst src offset =
     newAtomicInstruction dst src StLdSizeDW InsClassStx offset (ucast AluOr)"

definition MemOr :: "Register_ptr \<Rightarrow> Register_ptr \<Rightarrow> int16 \<Rightarrow> MemoryInstruction" where
  "MemOr dst src offset =
     newAtomicInstruction dst src StLdSizeW InsClassStx offset (ucast AluOr)"

definition MemAnd64 :: "Register_ptr \<Rightarrow> Register_ptr \<Rightarrow> int16 \<Rightarrow> MemoryInstruction" where
  "MemAnd64 dst src offset =
     newAtomicInstruction dst src StLdSizeDW InsClassStx offset (ucast AluAnd)"

definition MemAnd :: "Register_ptr \<Rightarrow> Register_ptr \<Rightarrow> int16 \<Rightarrow> MemoryInstruction" where
  "MemAnd dst src offset =
     newAtomicInstruction dst src StLdSizeW InsClassStx offset (ucast AluAnd)"

definition MemXor64 :: "Register_ptr \<Rightarrow> Register_ptr \<Rightarrow> int16 \<Rightarrow> MemoryInstruction" where
  "MemXor64 dst src offset =
     newAtomicInstruction dst src StLdSizeDW InsClassStx offset (ucast AluXor)"

definition MemXor :: "Register_ptr \<Rightarrow> Register_ptr \<Rightarrow> int16 \<Rightarrow> MemoryInstruction" where
  "MemXor dst src offset =
     newAtomicInstruction dst src StLdSizeW InsClassStx offset (ucast AluXor)"

lemmas store_defs = StDW_def StW_def StH_def StB_def
lemmas load_defs = LdDW_def LdW_def LdH_def LdB_def
lemmas atomic_defs =
  MemAdd64_def MemAdd_def MemOr64_def MemOr_def
  MemAnd64_def MemAnd_def MemXor64_def MemXor_def

section \<open>Reading the fields of an encoded word\<close>









section \<open>The control unit\<close>

text \<open>
  The four concrete strategies \<^verbatim>\<open>Init\<close> can bind, each of its own package:
  \<^verbatim>\<open>parseverifier.StrategyParseVerifierLog\<close>, \<^verbatim>\<open>pointerarithmetic.Strategy\<close> with
  its \<^verbatim>\<open>InstructionCount\<close>, \<^verbatim>\<open>playground.Strategy\<close> and
  \<^verbatim>\<open>stackcorruption.Strategy\<close>.
\<close>

datatype Strategy =
    ParseVerifier_StrategyParseVerifierLog
  | PointerArithmetic_Strategy int
  | Playground_Strategy
  | StackCorruption_Strategy

text \<open>
  The \<^verbatim>\<open>StrategyName\<close> constants of the four strategy packages are declared outside
  the sources at hand; \<^verbatim>\<open>Init\<close> takes them as a parameter.
\<close>

record StrategyNames =
  parseverifier_StrategyName :: string
  pointerarithmetic_StrategyName :: string
  playground_StrategyName :: string
  stackcorruption_StrategyName :: string

text \<open>
  The executor and the coverage manager are interface values: \<open>None\<close> is the nil
  interface. A fresh control unit is Go's zero value.
\<close>

record ('e, 'c) ControlUnit =
  strat :: "Strategy option"
  ex :: "'e option"
  rm :: string
  cm :: "'c option"
  rdy :: bool

definition ControlUnit_zero :: "('e, 'c) ControlUnit" where
  "ControlUnit_zero = \<lparr>strat = None, ex = None, rm = [], cm = None, rdy = False\<rparr>"

datatype error = Errorf string

text \<open>
  \<^verbatim>\<open>Init\<close> stores the executor, then switches on the strategy flag; the cases are
  tried in the order written. It returns the error (\<open>None\<close> is nil) and the updated
  unit. The \<^verbatim>\<open>coverageManager\<close> and \<^verbatim>\<open>runMode\<close> parameters are not used by the
  body.
\<close>

definition Init ::
  "StrategyNames \<Rightarrow> ('e, 'c) ControlUnit \<Rightarrow> 'e option \<Rightarrow> 'c option \<Rightarrow> string \<Rightarrow> string
     \<Rightarrow> error option \<times> ('e, 'c) ControlUnit" where
  "Init names cu executor coverageManager runMode fuzzStrategyFlag =
     (let cu1 = cu\<lparr>ex := executor\<rparr>
      in if fuzzStrategyFlag = parseverifier_StrategyName names then
           (None, cu1\<lparr>strat := Some ParseVerifier_StrategyParseVerifierLog, rdy := True\<rparr>)
         else if fuzzStrategyFlag = pointerarithmetic_StrategyName names then
           (None, cu1\<lparr>strat := Some (PointerArithmetic_Strategy 60), rdy := True\<rparr>)
         else if fuzzStrategyFlag = playground_StrategyName names then
           (None, cu1\<lparr>strat := Some Playground_Strategy, rdy := True\<rparr>)
         else if fuzzStrategyFlag = stackcorruption_StrategyName names then
           (None, cu1\<lparr>strat := Some StackCorruption_Strategy, rdy := True\<rparr>)
         else
           (Some (Errorf (''unknown fuzzing strategy: '' @ fmt_s fuzzStrategyFlag)), cu1))"

definition IsReady :: "('e, 'c) ControlUnit \<Rightarrow> bool" where
  "IsReady cu = rdy cu"

text \<open>
  \<^verbatim>\<open>RunFuzzer\<close> calls the bound strategy's \<^verbatim>\<open>Fuzz\<close> with the unit's executor and
  coverage manager fields. The strategies' \<^verbatim>\<open>Fuzz\<close> methods live outside the sources
  at hand and are a parameter; a call through a nil strategy panics.
\<close>

definition RunFuzzer ::
  "(Strategy \<Rightarrow> 'e option \<Rightarrow> 'c option \<Rightarrow> 'r) \<Rightarrow> ('e, 'c) ControlUnit \<Rightarrow> panic + 'r" where
  "RunFuzzer Fuzz cu =
     (case strat cu of
        None \<Rightarrow> Inl NilPointerDereference
      | Some s \<Rightarrow> Inr (Fuzz s (ex cu) (cm cu)))"

section \<open>Metrics collection\<close>

text \<open>
  \<^verbatim>\<open>strings.Split\<close> of Go's standard library, for a separator of one byte: the
  segments between the separators, one more than there are separators, so never an empty
  list.
\<close>

fun strings_Split :: "string \<Rightarrow> char \<Rightarrow> string list" where
  "strings_Split [] sep = [[]]"
| "strings_Split (c # cs) sep =
     (if c = sep then [] # strings_Split cs sep
      else (case strings_Split cs sep of
              [] \<Rightarrow> [[c]]
            | seg # segs \<Rightarrow> (c # seg) # segs))"

record CoverageInfo =
  fileName :: string
  fullPath :: string
  coveredLines :: "go_int list"

text \<open>
  The coverage manager is an interface outside the sources at hand. The collection reads
  it only through \<^verbatim>\<open>GetCoverageInfoMap\<close>; the field holds the entries of that map, in
  the order the \<^verbatim>\<open>range\<close> statement visits them (an order Go leaves open).
\<close>

record MetricsCollection =
  programsVerified :: go_int
  validPrograms :: go_int
  coverageManager :: "(string \<times> go_int list) list"

text \<open>
  What a method does to the collection's mutex and fields, in program order. The deferred
  \<^verbatim>\<open>Unlock\<close> runs last, after the return values are read.
\<close>

datatype metrics_event =
    LockMetrics
  | UnlockMetrics
  | ReadCoverageInfoMap
  | ReadProgramsVerified
  | ReadValidPrograms

text \<open>The body of the \<^verbatim>\<open>range\<close> loop of \<^verbatim>\<open>getMetrics\<close>, run over the map's entries.\<close>

fun getMetrics_loop ::
  "(string \<times> go_int list) list \<Rightarrow> CoverageInfo list \<Rightarrow> CoverageInfo list" where
  "getMetrics_loop [] covArray = covArray"
| "getMetrics_loop ((filePath, cov) # rest) covArray =
     (let pathSplit = strings_Split filePath CHR ''/''
      in if length pathSplit = 0 then getMetrics_loop rest covArray
         else getMetrics_loop rest
                (covArray @
                  [\<lparr>fileName = pathSplit ! (length pathSplit - 1),
                    fullPath = filePath,
                    coveredLines = [] @ cov\<rparr>]))"

definition getMetrics ::
  "MetricsCollection \<Rightarrow> metrics_event list \<times> (go_int \<times> go_int \<times> CoverageInfo list)" where
  "getMetrics mc =
     (let covArray = getMetrics_loop (coverageManager mc) []
      in ([LockMetrics, ReadCoverageInfoMap, ReadProgramsVerified, ReadValidPrograms,
           UnlockMetrics],
          (programsVerified mc, validPrograms mc, covArray)))"

section \<open>Word count of the bytecode\<close>

text \<open>
  Claim C1, amended. For every memory instruction whose destination and source register
  are both non-nil, \<^verbatim>\<open>GenerateBytecode\<close> returns exactly one word, the encoded
  instruction, except when the class is load and the mode is immediate: then it returns
  exactly two words, the second all zero bits. No other class and mode adds a trailing
  word.
\<close>

theorem GenerateBytecode_words:
  assumes "DstReg c = Some d" and "SrcReg c = Some s"
  shows "\<exists>ws. GenerateBytecode c = Inr ws
           \<and> hd ws = encodeImmediateStOrLdInstruction (InstructionClass c) (Size c) (Mode c)
                       (RegisterNumber d) (RegisterNumber s) (Imm c) (Offset c)
           \<and> (if InstructionClass c = InsClassLd \<and> Mode c = StLdModeIMM
                then length ws = 2 \<and> ws ! 1 = 0
                else length ws = 1)"
  using assms by (simp add: GenerateBytecode_def Let_def)

text \<open>
  The theorem at a resource-handle load (two words) and at a store of an immediate (one
  word).
\<close>

theorem GenerateBytecode_words_witness:
  "(\<exists>ws. GenerateBytecode
            \<lparr>InstructionClass = InsClassLd, DstReg = Some RegR1, Size = StLdSizeDW,
             Mode = StLdModeIMM, SrcReg = Some PseudoMapFD, Imm = 7, Offset = 0\<rparr> = Inr ws
         \<and> length ws = 2 \<and> ws ! 1 = 0)
   \<and> (\<exists>ws. GenerateBytecode
            \<lparr>InstructionClass = InsClassSt, DstReg = Some RegR10, Size = StLdSizeW,
             Mode = StLdModeMEM, SrcReg = Some RegR0, Imm = 7, Offset = -8\<rparr> = Inr ws
         \<and> length ws = 1)"
  using
    GenerateBytecode_words [of
      "\<lparr>InstructionClass = InsClassLd, DstReg = Some RegR1, Size = StLdSizeDW,
        Mode = StLdModeIMM, SrcReg = Some PseudoMapFD, Imm = 7, Offset = 0\<rparr>"
      RegR1 PseudoMapFD]
    GenerateBytecode_words [of
      "\<lparr>InstructionClass = InsClassSt, DstReg = Some RegR10, Size = StLdSizeW,
        Mode = StLdModeMEM, SrcReg = Some RegR0, Imm = 7, Offset = -8\<rparr>"
      RegR10 RegR0]
  by (auto simp: opcode_defs)

text \<open>
  Claim C1 as stated fails for an instruction with a nil register: the store built by
  \<^verbatim>\<open>StDW\<close> from a nil register pointer has a nil source register, the zero value of
  \<^verbatim>\<open>MemoryInstruction\<close> has both registers nil, and on either \<^verbatim>\<open>GenerateBytecode\<close>
  panics in a \<^verbatim>\<open>RegisterNumber\<close> call instead of returning a word list.
\<close>

theorem GenerateBytecode_nil_counterexample:
  "map_option GenerateBytecode (StDW (Some RegR1) (RegOperand None) 0)
     = Some (Inl NilPointerDereference)
   \<and> GenerateBytecode
        \<lparr>InstructionClass = 0, DstReg = None, Size = 0, Mode = 0, SrcReg = None,
         Imm = 0, Offset = 0\<rparr>
     = Inl NilPointerDereference"
  by (simp add: store_defs newStoreOperation_def isIntType_def GenerateBytecode_def)

section \<open>Narrowing a Go int to an int32\<close>

lemma ucast_sint: "(ucast (v :: go_int) :: int32) = word_of_int (sint v)"
  by (rule bit_word_eqI) (auto simp: bit_simps bit_sint_iff min_def)

lemma sint_ucast_down:
  assumes "- (2^31) \<le> sint (v :: go_int)" and "sint v < 2^31"
  shows "sint (ucast v :: int32) = sint v"
proof -
  have "sint (ucast v :: int32) = sint (word_of_int (sint v) :: int32)"
    by (simp only: ucast_sint)
  also have "\<dots> = signed_take_bit 31 (sint v)"
    by (simp only: sint_sbintrunc') simp
  also have "\<dots> = sint v"
    using assms by (simp only: signed_take_bit_int_eq_self)
  finally show ?thesis .
qed

lemma sint_ucast_down_iff:
  "sint (ucast v :: int32) = sint (v :: go_int) \<longleftrightarrow> - (2^31) \<le> sint v \<and> sint v < 2^31"
  using sint_ucast_down [of v] sint_range_size [of "ucast v :: int32"]
  by (auto simp: word_size)

section \<open>Constructing a store\<close>

text \<open>
  Claim C2, amended. For every destination register, offset and size,
  \<^verbatim>\<open>newStoreOperation\<close> (and so \<^verbatim>\<open>StDW\<close>, \<^verbatim>\<open>StW\<close>, \<^verbatim>\<open>StH\<close>, \<^verbatim>\<open>StB\<close>, which
  only fix the size) builds from an integer-typed value a store-immediate instruction
  whose immediate is the value converted to \<^verbatim>\<open>int32\<close>, that is its low 32 bits; the
  immediate equals the value exactly when the value is representable in 32 signed bits.
  From a register reference it builds a store-register instruction with that source
  register and immediate 0, and from a value of any other shape it returns nil.
\<close>

theorem newStoreOperation_shapes:
  "newStoreOperation sz dst (IntOperand v) off =
     Some \<lparr>InstructionClass = InsClassSt, DstReg = dst, Size = sz, Mode = StLdModeMEM,
           SrcReg = Some RegR0, Imm = ucast v, Offset = off\<rparr>
   \<and> (sint (ucast v :: int32) = sint v \<longleftrightarrow> - (2^31) \<le> sint v \<and> sint v < 2^31)
   \<and> newStoreOperation sz dst (RegOperand r) off =
     Some \<lparr>InstructionClass = InsClassStx, DstReg = dst, Size = sz, Mode = StLdModeMEM,
           SrcReg = r, Imm = 0, Offset = off\<rparr>
   \<and> newStoreOperation sz dst OtherOperand off = None
   \<and> StDW dst x off = newStoreOperation StLdSizeDW dst x off
   \<and> StW dst x off = newStoreOperation StLdSizeW dst x off
   \<and> StH dst x off = newStoreOperation StLdSizeH dst x off
   \<and> StB dst x off = newStoreOperation StLdSizeB dst x off"
  by (simp add: newStoreOperation_def isIntType_def store_defs sint_ucast_down_iff)

text \<open>
  Claim C2 as stated fails for an integer that does not fit 32 bits: storing the
  constant \<open>2 ^ 32\<close> builds a store-immediate instruction whose immediate is 0, not
  the value.
\<close>

theorem newStoreOperation_imm_counterexample:
  "map_option (sint \<circ> Imm) (StDW (Some RegR1) (IntOperand 4294967296) 0) = Some 0
   \<and> map_option InstructionClass (StDW (Some RegR1) (IntOperand 4294967296) 0)
       = Some InsClassSt
   \<and> sint (4294967296 :: go_int) = 4294967296"
  by (simp add: newStoreOperation_def isIntType_def store_defs)

section \<open>Round trip of a store-immediate instruction\<close>













section \<open>The resource-handle loader\<close>

text \<open>
  Claim C4. For every destination register and every handle representable in 32 signed
  bits (zero and negative values included), \<^verbatim>\<open>LdMapByFd\<close> builds an instruction of
  class load, mode immediate and double-word size, with the pseudo sentinel in the
  source-register field and the handle as the immediate; its bytecode is exactly two
  words, the second all zero.
\<close>

theorem LdMapByFd_shape:
  assumes "- (2^31) \<le> sint fd" and "sint fd < 2^31"
  shows "InstructionClass (LdMapByFd (Some d) fd) = InsClassLd
         \<and> Mode (LdMapByFd (Some d) fd) = StLdModeIMM
         \<and> Size (LdMapByFd (Some d) fd) = StLdSizeDW
         \<and> DstReg (LdMapByFd (Some d) fd) = Some d
         \<and> SrcReg (LdMapByFd (Some d) fd) = Some PseudoMapFD
         \<and> sint (Imm (LdMapByFd (Some d) fd)) = sint fd
         \<and> (\<exists>w. GenerateBytecode (LdMapByFd (Some d) fd) = Inr [w, 0])"
  using sint_ucast_down [OF assms]
  by (simp add: LdMapByFd_def GenerateBytecode_def Let_def)

text \<open>The theorem at the handle \<open>-1\<close> loaded into r1.\<close>

theorem LdMapByFd_shape_witness:
  "InstructionClass (LdMapByFd (Some RegR1) (- 1)) = InsClassLd
   \<and> Mode (LdMapByFd (Some RegR1) (- 1)) = StLdModeIMM
   \<and> Size (LdMapByFd (Some RegR1) (- 1)) = StLdSizeDW
   \<and> DstReg (LdMapByFd (Some RegR1) (- 1)) = Some RegR1
   \<and> SrcReg (LdMapByFd (Some RegR1) (- 1)) = Some PseudoMapFD
   \<and> sint (Imm (LdMapByFd (Some RegR1) (- 1))) = - 1
   \<and> (\<exists>w. GenerateBytecode (LdMapByFd (Some RegR1) (- 1)) = Inr [w, 0])"
  using LdMapByFd_shape [of "- 1" RegR1]
  by simp

section \<open>Initialising and running the control unit\<close>

text \<open>
  Claim C6. The claim says that after a successful \<^verbatim>\<open>Init\<close> the executor and the
  coverage manager passed to it are both bound, so that \<^verbatim>\<open>RunFuzzer\<close> hands exactly
  these two to the strategy's \<^verbatim>\<open>Fuzz\<close>. The code binds the executor only: \<^verbatim>\<open>Init\<close>
  leaves the \<^verbatim>\<open>cm\<close> field as it was, whatever coverage manager it is given, and on a
  fresh unit \<^verbatim>\<open>RunFuzzer\<close> calls \<^verbatim>\<open>Fuzz\<close> with the executor and a nil coverage
  manager.
\<close>

theorem Init_drops_coverageManager:
  "cm (snd (Init names cu executor covMgr runMode flag)) = cm cu
   \<and> ex (snd (Init names cu executor covMgr runMode flag)) = executor
   \<and> RunFuzzer Fuzz
        (snd (Init names ControlUnit_zero (Some e) (Some c) runMode
                (parseverifier_StrategyName names))) =
      Inr (Fuzz ParseVerifier_StrategyParseVerifierLog (Some e) None)"
  by (simp add: Init_def RunFuzzer_def ControlUnit_zero_def Let_def)

text \<open>
  Claim C7. The four strategy names are distinct constants. \<^verbatim>\<open>Init\<close> with a flag that
  is none of them returns the "unknown fuzzing strategy" error and leaves readiness and
  the bound strategy as they were, so a unit that was not ready remains not ready.
  \<^verbatim>\<open>Init\<close> with each of the four names returns no error, makes the unit ready and binds
  the strategy of that name: the parse-verifier-log strategy, the pointer-arithmetic
  strategy with an instruction count of 60, the playground strategy, the
  stack-corruption strategy.
\<close>

theorem Init_strategy_resolution:
  assumes "distinct [parseverifier_StrategyName names, pointerarithmetic_StrategyName names,
                     playground_StrategyName names, stackcorruption_StrategyName names]"
  shows "(flag \<notin> {parseverifier_StrategyName names, pointerarithmetic_StrategyName names,
                  playground_StrategyName names, stackcorruption_StrategyName names} \<longrightarrow>
            fst (Init names cu executor covMgr runMode flag) =
              Some (Errorf (''unknown fuzzing strategy: '' @ flag))
            \<and> IsReady (snd (Init names cu executor covMgr runMode flag)) = IsReady cu
            \<and> strat (snd (Init names cu executor covMgr runMode flag)) = strat cu)
         \<and> fst (Init names cu executor covMgr runMode (parseverifier_StrategyName names)) = None
         \<and> IsReady (snd (Init names cu executor covMgr runMode
                            (parseverifier_StrategyName names)))
         \<and> strat (snd (Init names cu executor covMgr runMode
                          (parseverifier_StrategyName names)))
             = Some ParseVerifier_StrategyParseVerifierLog
         \<and> fst (Init names cu executor covMgr runMode (pointerarithmetic_StrategyName names))
             = None
         \<and> IsReady (snd (Init names cu executor covMgr runMode
                            (pointerarithmetic_StrategyName names)))
         \<and> strat (snd (Init names cu executor covMgr runMode
                          (pointerarithmetic_StrategyName names)))
             = Some (PointerArithmetic_Strategy 60)
         \<and> fst (Init names cu executor covMgr runMode (playground_StrategyName names)) = None
         \<and> IsReady (snd (Init names cu executor covMgr runMode
                            (playground_StrategyName names)))
         \<and> strat (snd (Init names cu executor covMgr runMode
                          (playground_StrategyName names)))
             = Some Playground_Strategy
         \<and> fst (Init names cu executor covMgr runMode (stackcorruption_StrategyName names))
             = None
         \<and> IsReady (snd (Init names cu executor covMgr runMode
                            (stackcorruption_StrategyName names)))
         \<and> strat (snd (Init names cu executor covMgr runMode
                          (stackcorruption_StrategyName names)))
             = Some StackCorruption_Strategy"
  using assms by (auto simp: Init_def IsReady_def Let_def fmt_s_def)

text \<open>
  The theorem on a fresh unit, with four distinct names: an unknown flag leaves it not
  ready, the playground name binds the playground strategy.
\<close>

theorem Init_strategy_resolution_witness:
  "fst (Init \<lparr>parseverifier_StrategyName = ''parse_verifier'',
            pointerarithmetic_StrategyName = ''pointer_arithmetic'',
            playground_StrategyName = ''playground'',
            stackcorruption_StrategyName = ''stack_corruption''\<rparr>
          (ControlUnit_zero :: (nat, nat) ControlUnit) (Some 1) (Some 2) ''fuzz'' ''bogus'')
     = Some (Errorf ''unknown fuzzing strategy: bogus'')
   \<and> \<not> IsReady (snd (Init \<lparr>parseverifier_StrategyName = ''parse_verifier'',
            pointerarithmetic_StrategyName = ''pointer_arithmetic'',
            playground_StrategyName = ''playground'',
            stackcorruption_StrategyName = ''stack_corruption''\<rparr>
          (ControlUnit_zero :: (nat, nat) ControlUnit) (Some 1) (Some 2) ''fuzz'' ''bogus''))
   \<and> fst (Init \<lparr>parseverifier_StrategyName = ''parse_verifier'',
            pointerarithmetic_StrategyName = ''pointer_arithmetic'',
            playground_StrategyName = ''playground'',
            stackcorruption_StrategyName = ''stack_corruption''\<rparr>
          (ControlUnit_zero :: (nat, nat) ControlUnit) (Some 1) (Some 2) ''fuzz'' ''playground'') = None
   \<and> IsReady (snd (Init \<lparr>parseverifier_StrategyName = ''parse_verifier'',
            pointerarithmetic_StrategyName = ''pointer_arithmetic'',
            playground_StrategyName = ''playground'',
            stackcorruption_StrategyName = ''stack_corruption''\<rparr>
          (ControlUnit_zero :: (nat, nat) ControlUnit) (Some 1) (Some 2) ''fuzz'' ''playground''))
   \<and> strat (snd (Init \<lparr>parseverifier_StrategyName = ''parse_verifier'',
            pointerarithmetic_StrategyName = ''pointer_arithmetic'',
            playground_StrategyName = ''playground'',
            stackcorruption_StrategyName = ''stack_corruption''\<rparr>
          (ControlUnit_zero :: (nat, nat) ControlUnit) (Some 1) (Some 2) ''fuzz'' ''playground''))
       = Some Playground_Strategy"
  using Init_strategy_resolution
    [of "\<lparr>parseverifier_StrategyName = ''parse_verifier'',
            pointerarithmetic_StrategyName = ''pointer_arithmetic'',
            playground_StrategyName = ''playground'',
            stackcorruption_StrategyName = ''stack_corruption''\<rparr>"
        "''bogus''" "ControlUnit_zero :: (nat, nat) ControlUnit" "Some 1" "Some 2" "''fuzz''"]
  by (simp add: ControlUnit_zero_def IsReady_def)

section \<open>The reproduction text of a memory instruction\<close>

text \<open>
  Claim C8. The claim says that register operands are printed by their canonical name.
  The memory-operation formats pass the register names to the verb \<^verbatim>\<open>%d\<close>, so the
  text holds \<^verbatim>\<open>%!d(string=r1)\<close> where the name \<^verbatim>\<open>r1\<close> is meant; only the
  resource-handle format, which uses \<^verbatim>\<open>%s\<close>, prints the name. The macro name, the
  offset, the immediate and the \<^verbatim>\<open>map_fd\<close> placeholder are as the claim says.
\<close>

theorem GeneratePoc_register_verb:
  "map_option GeneratePoc (StDW (Some RegR1) (RegOperand (Some RegR2)) 8) =
     Some (Inr [''BPF_MEM_OPERATION(BPF_STX, BPF_DW, /*dst=*/%!d(string=r1), /*src=*/%!d(string=r2), /*offset=*/8)''])
   \<and> map_option GeneratePoc (StW (Some RegR10) (IntOperand 5) (- 8)) =
     Some (Inr [''BPF_MEM_IMM_OPERATION(BPF_ST, BPF_W, /*dst=*/%!d(string=r10), /*src=*/5, /*offset=*/-8)''])
   \<and> GeneratePoc (LdMapByFd (Some RegR1) 3) = Inr [''BPF_LD_MAP_FD(/*dst=*/r1, map_fd)'']"
  by (simp add: store_defs newStoreOperation_def isIntType_def LdMapByFd_def GeneratePoc_def
      opcode_defs fmt_s_def fmt_d_def fmt_d_of_string_def nat_to_decimal.simps digit_char_def)

section \<open>The coverage breakdown\<close>

lemma strings_Split_nonempty: "strings_Split p sep \<noteq> []"
  by (induction p) (auto split: list.splits)

lemma strings_Split_no_sep: "sep \<notin> set p \<Longrightarrow> strings_Split p sep = [p]"
  by (induction p) auto

lemma strings_Split_with_sep: "sep \<in> set p \<Longrightarrow> 2 \<le> length (strings_Split p sep)"
  using strings_Split_nonempty [of _ sep]
  by (induction p) (auto split: list.splits simp: Suc_le_eq)

lemma last_segment_Cons:
  "rev (takeWhile (\<lambda>x. x \<noteq> sep) (rev (c # cs))) =
     (if sep \<in> set cs then rev (takeWhile (\<lambda>x. x \<noteq> sep) (rev cs))
      else if c = sep then cs else c # cs)"
  by (auto simp: takeWhile_append takeWhile_eq_all_conv [THEN iffD2])

text \<open>The last segment is what follows the last separator (the whole string if none).\<close>

lemma last_strings_Split:
  "last (strings_Split p sep) = rev (takeWhile (\<lambda>c. c \<noteq> sep) (rev p))"
proof (induction p)
  case Nil
  then show ?case by simp
next
  case (Cons c cs)
  show ?case
  proof (cases "sep \<in> set cs")
    case True
    then obtain seg seg' segs where "strings_Split cs sep = seg # seg' # segs"
      using strings_Split_with_sep [of sep cs]
      by (cases "strings_Split cs sep" rule: remdups_adj.cases) auto
    with True Cons.IH show ?thesis
      by (simp only: last_segment_Cons) (auto simp del: rev.simps)
  next
    case False
    then show ?thesis
      using strings_Split_no_sep [of sep cs]
      by (simp only: last_segment_Cons) auto
  qed
qed

lemma getMetrics_loop_eq:
  "getMetrics_loop entries covArray =
     covArray @ concat (map (\<lambda>(filePath, cov).
        if strings_Split filePath CHR ''/'' = [] then []
        else [\<lparr>fileName = last (strings_Split filePath CHR ''/''),
               fullPath = filePath, coveredLines = cov\<rparr>]) entries)"
proof (induction entries arbitrary: covArray)
  case Nil
  then show ?case by simp
next
  case (Cons e entries)
  obtain filePath cov where e: "e = (filePath, cov)"
    by (cases e)
  show ?case
    using strings_Split_nonempty [of filePath "CHR ''/''"]
    by (simp add: e Cons.IH Let_def last_conv_nth)
qed

text \<open>
  Claim C9. \<^verbatim>\<open>getMetrics\<close> locks the mutex once, reads the coverage map and the two
  counters, and unlocks last. It returns the two counters and, for the map's entries in
  the order visited, nothing for a path whose split is empty and otherwise one entry
  with the last segment of the path as file name, the path itself as full path and the
  entry's line numbers as they are, neither sorted nor deduplicated. The split of a path
  is never empty, and its last segment is what follows the last slash.
\<close>

theorem getMetrics_coverage_breakdown:
  "getMetrics mc =
     ([LockMetrics, ReadCoverageInfoMap, ReadProgramsVerified, ReadValidPrograms,
       UnlockMetrics],
      (programsVerified mc, validPrograms mc,
       concat (map (\<lambda>(filePath, cov).
         if strings_Split filePath CHR ''/'' = [] then []
         else [\<lparr>fileName = last (strings_Split filePath CHR ''/''),
                fullPath = filePath, coveredLines = cov\<rparr>]) (coverageManager mc))))
   \<and> strings_Split filePath CHR ''/'' \<noteq> []
   \<and> last (strings_Split filePath CHR ''/'')
       = rev (takeWhile (\<lambda>c. c \<noteq> CHR ''/'') (rev filePath))"
  by (simp add: getMetrics_def getMetrics_loop_eq last_strings_Split strings_Split_nonempty)

section \<open>Nil registers and the factories\<close>

lemma GenerateBytecode_returns:
  "DstReg i = Some d \<Longrightarrow> SrcReg i = Some s \<Longrightarrow> \<exists>ws. GenerateBytecode i = Inr ws"
  by (simp add: GenerateBytecode_def Let_def)

lemma GeneratePoc_returns:
  "DstReg i = Some d \<Longrightarrow> SrcReg i = Some s \<Longrightarrow> \<exists>ls. GeneratePoc i = Inr ls"
  by (simp add: GeneratePoc_def Let_def)

text \<open>
  Claim C10, amended. The factories store the registers they are given as they are, and
  fill only the operand that carries no meaning: \<^verbatim>\<open>RegR0\<close> as the source of a store of
  an immediate, the pseudo sentinel as the source of the resource-handle load. So every
  instruction a factory returns when the registers passed to it are non-nil (for a
  store, an operand that is not a nil register pointer) has a non-nil destination and a
  non-nil source register, and \<^verbatim>\<open>GenerateBytecode\<close> and \<^verbatim>\<open>GeneratePoc\<close> return on
  it without a nil dereference.
\<close>

theorem factories_populate_registers:
  assumes "x \<noteq> RegOperand None"
    and "Some i \<in>
      {newStoreOperation sz (Some d) x off,
       StDW (Some d) x off, StW (Some d) x off, StH (Some d) x off, StB (Some d) x off,
       Some (newLoadToRegisterOperation sz (Some d) (Some s) off),
       Some (LdDW (Some d) (Some s) off), Some (LdW (Some d) (Some s) off),
       Some (LdH (Some d) (Some s) off), Some (LdB (Some d) (Some s) off),
       Some (LdMapByFd (Some d) fd),
       Some (newAtomicInstruction (Some d) (Some s) sz cls off opn),
       Some (MemAdd64 (Some d) (Some s) off), Some (MemAdd (Some d) (Some s) off),
       Some (MemOr64 (Some d) (Some s) off), Some (MemOr (Some d) (Some s) off),
       Some (MemAnd64 (Some d) (Some s) off), Some (MemAnd (Some d) (Some s) off),
       Some (MemXor64 (Some d) (Some s) off), Some (MemXor (Some d) (Some s) off)}"
  shows "DstReg i \<noteq> None \<and> SrcReg i \<noteq> None
         \<and> (\<exists>ws. GenerateBytecode i = Inr ws) \<and> (\<exists>ls. GeneratePoc i = Inr ls)"
proof -
  have store: "DstReg j = Some d \<and> SrcReg j \<noteq> None"
    if "newStoreOperation sz' (Some d) x off = Some j" for sz' j
    using that assms(1)
    by (cases x) (auto simp: newStoreOperation_def isIntType_def)
  have "DstReg i = Some d \<and> SrcReg i \<noteq> None"
    using assms(2) store
    by (auto simp: store_defs load_defs atomic_defs newLoadToRegisterOperation_def
        LdMapByFd_def newAtomicInstruction_def)
  then obtain s' where "DstReg i = Some d" and "SrcReg i = Some s'"
    by auto
  then show ?thesis
    using GenerateBytecode_returns GeneratePoc_returns by auto
qed

text \<open>The theorem at the load of handle 3 into r1.\<close>

theorem factories_populate_registers_witness:
  "DstReg (LdMapByFd (Some RegR1) 3) \<noteq> None \<and> SrcReg (LdMapByFd (Some RegR1) 3) \<noteq> None
   \<and> (\<exists>ws. GenerateBytecode (LdMapByFd (Some RegR1) 3) = Inr ws)
   \<and> (\<exists>ls. GeneratePoc (LdMapByFd (Some RegR1) 3) = Inr ls)"
  using factories_populate_registers
    [where x = "IntOperand 0" and i = "LdMapByFd (Some RegR1) 3" and d = RegR1 and fd = 3]
  by simp

text \<open>
  Claim C10 as stated fails when a caller passes a nil register: the resource-handle
  load built with a nil destination has a nil destination field, and both
  \<^verbatim>\<open>GenerateBytecode\<close> and \<^verbatim>\<open>GeneratePoc\<close> dereference it; a load built from nil
  registers has a nil source field.
\<close>

theorem factories_pass_nil_counterexample:
  "DstReg (LdMapByFd None 3) = None
   \<and> GenerateBytecode (LdMapByFd None 3) = Inl NilPointerDereference
   \<and> GeneratePoc (LdMapByFd None 3) = Inl NilPointerDereference
   \<and> SrcReg (LdW None None 0) = None"
  by (simp add: LdMapByFd_def GenerateBytecode_def GeneratePoc_def load_defs
      newLoadToRegisterOperation_def opcode_defs)

end
